theory Spec2Isabelle
  imports Main
begin

section \<open>The caching HTTP proxy of \<^verbatim>\<open>proxy_server/HTTP_ProxyServer.py\<close>\<close>

text \<open>
  The development embeds \<^verbatim>\<open>sanitize_filename\<close> and \<^verbatim>\<open>handle_client\<close>. Bytes and
  text are both \<^typ>\<open>string\<close>: a Python \<^verbatim>\<open>str\<close> is represented by its UTF-8 encoding, so
  \<^verbatim>\<open>decode\<close> is a validity check and \<^verbatim>\<open>encode\<close> is the identity. The sockets, the
  resolver, \<^verbatim>\<open>urllib.parse.urlparse\<close> and the disk are the environment of the function
  and are parameters of the model; what the function does to them is recorded as a list
  of events and a map of cache files. Every \<^verbatim>\<open>raise\<close> the environment can cause on the
  way to the origin and to the disk is a branch. Three things are taken for granted:
  the cache directory can be created, the client socket accepts what is sent to it,
  and \<^verbatim>\<open>print\<close> does nothing of interest.
\<close>

subsection \<open>Python string operations\<close>

abbreviation CR :: char where "CR \<equiv> CHR 0x0D"
abbreviation LF :: char where "LF \<equiv> CHR 0x0A"
abbreviation CRLF :: string where "CRLF \<equiv> [CR, LF]"

text \<open>\<^verbatim>\<open>s.startswith(p)\<close>\<close>

definition startswith :: "string \<Rightarrow> string \<Rightarrow> bool" where
  "startswith s p = (take (length p) s = p)"

text \<open>\<^verbatim>\<open>s.find(sub)\<close>: the index of the first occurrence, \<open>None\<close> for Python's \<open>-1\<close>.\<close>

fun find_from :: "nat \<Rightarrow> string \<Rightarrow> string \<Rightarrow> nat option" where
  "find_from i [] sub = (if sub = [] then Some i else None)"
| "find_from i (c # cs) sub =
     (if startswith (c # cs) sub then Some i else find_from (Suc i) cs sub)"

definition find_str :: "string \<Rightarrow> string \<Rightarrow> nat option" where
  "find_str s sub = find_from 0 s sub"

text \<open>\<^verbatim>\<open>sub in s\<close>\<close>

definition contains :: "string \<Rightarrow> string \<Rightarrow> bool" where
  "contains s sub = (find_str s sub \<noteq> None)"

text \<open>\<^verbatim>\<open>s.split("\r\n")\<close>: never the empty list; \<^verbatim>\<open>"".split("\r\n")\<close> is \<^verbatim>\<open>[""]\<close>.\<close>

fun split_crlf :: "string \<Rightarrow> string list" where
  "split_crlf [] = [[]]"
| "split_crlf [c] = [[c]]"
| "split_crlf (c # d # cs) =
     (if c = CR \<and> d = LF then [] # split_crlf cs
      else (case split_crlf (d # cs) of
              [] \<Rightarrow> [[c]]
            | l # ls \<Rightarrow> (c # l) # ls))"

text \<open>
  \<^verbatim>\<open>s.split()\<close> splits at runs of the characters for which \<^verbatim>\<open>str.isspace\<close> holds. Those
  are U+0009 to U+000D, U+001C to U+0020, U+0085, U+00A0, U+1680, U+2000 to U+200A,
  U+2028, U+2029, U+202F, U+205F and U+3000. \<open>ws_len s\<close> is the number of bytes of such a
  character at the head of \<open>s\<close> in UTF-8, and \<open>0\<close> when there is none.
\<close>

definition ws_len :: "string \<Rightarrow> nat" where
  "ws_len s =
     (case map of_char s :: nat list of
        [] \<Rightarrow> 0
      | b0 # r0 \<Rightarrow>
          if (9 \<le> b0 \<and> b0 \<le> 13) \<or> (28 \<le> b0 \<and> b0 \<le> 32) then 1
          else (case r0 of
              [] \<Rightarrow> 0
            | b1 # r1 \<Rightarrow>
                if b0 = 0xC2 \<and> (b1 = 0x85 \<or> b1 = 0xA0) then 2
                else (case r1 of
                    [] \<Rightarrow> 0
                  | b2 # r2 \<Rightarrow>
                      if b0 = 0xE1 \<and> b1 = 0x9A \<and> b2 = 0x80 then 3
                      else if b0 = 0xE2 \<and> b1 = 0x80
                              \<and> ((0x80 \<le> b2 \<and> b2 \<le> 0x8A) \<or> b2 = 0xA8 \<or> b2 = 0xA9 \<or> b2 = 0xAF)
                        then 3
                      else if b0 = 0xE2 \<and> b1 = 0x81 \<and> b2 = 0x9F then 3
                      else if b0 = 0xE3 \<and> b1 = 0x80 \<and> b2 = 0x80 then 3
                      else 0)))"

text \<open>
  \<open>tokens k cur s\<close>: \<open>k\<close> bytes of a whitespace character are still to be skipped, \<open>cur\<close> is
  the token read so far.
\<close>

fun tokens :: "nat \<Rightarrow> string \<Rightarrow> string \<Rightarrow> string list" where
  "tokens k cur [] = (if cur = [] then [] else [cur])"
| "tokens k cur (c # cs) =
     (if 0 < k then tokens (k - 1) cur cs
      else if 0 < ws_len (c # cs)
        then (if cur = [] then [] else [cur]) @ tokens (ws_len (c # cs) - 1) [] cs
      else tokens 0 (cur @ [c]) cs)"

definition split_ws :: "string \<Rightarrow> string list" where
  "split_ws s = tokens 0 [] s"

text \<open>
  \<^verbatim>\<open>s.upper()\<close> and \<^verbatim>\<open>s.lower()\<close>, as far as the comparisons of \<^verbatim>\<open>handle_client\<close> can tell.
  The only non-ASCII characters that \<^verbatim>\<open>upper\<close> maps to letters of \<^verbatim>\<open>GET\<close> and \<^verbatim>\<open>POST\<close>
  alone are U+017F (to \<^verbatim>\<open>S\<close>) and U+FB05, U+FB06 (to \<^verbatim>\<open>ST\<close>); every other non-ASCII
  character is kept as it is, which no more equals \<^verbatim>\<open>GET\<close> or \<^verbatim>\<open>POST\<close> than its
  upper-case form does. \<^verbatim>\<open>lower\<close> yields an ASCII letter from a non-ASCII character only
  at U+0130 and U+212A, neither of which can complete a prefix \<^verbatim>\<open>connection\<close> or
  \<^verbatim>\<open>proxy-connection\<close>, so non-ASCII bytes are kept.
\<close>

definition upper_char :: "char \<Rightarrow> char" where
  "upper_char c =
     (case map_of (zip ''abcdefghijklmnopqrstuvwxyz'' ''ABCDEFGHIJKLMNOPQRSTUVWXYZ'') c of
        None \<Rightarrow> c
      | Some u \<Rightarrow> u)"

definition lower_char :: "char \<Rightarrow> char" where
  "lower_char c =
     (case map_of (zip ''ABCDEFGHIJKLMNOPQRSTUVWXYZ'' ''abcdefghijklmnopqrstuvwxyz'') c of
        None \<Rightarrow> c
      | Some l \<Rightarrow> l)"

fun upper :: "string \<Rightarrow> string" where
  "upper [] = []"
| "upper [c] = [upper_char c]"
| "upper [c, d] = (if c = CHR 0xC5 \<and> d = CHR 0xBF then ''S'' else upper_char c # upper [d])"
| "upper (c # d # e # cs) =
     (if c = CHR 0xC5 \<and> d = CHR 0xBF then ''S'' @ upper (e # cs)
      else if c = CHR 0xEF \<and> d = CHR 0xAC \<and> (e = CHR 0x85 \<or> e = CHR 0x86) then ''ST'' @ upper cs
      else upper_char c # upper (d # e # cs))"

definition lower :: "string \<Rightarrow> string" where
  "lower s = map lower_char s"

text \<open>
  \<^verbatim>\<open>bytes.decode()\<close> is strict UTF-8: \<open>utf8_len s\<close> is the length of the well-formed
  sequence at the head of \<open>s\<close>, \<open>0\<close> when the head is ill-formed (overlong forms,
  surrogates and values beyond U+10FFFF included). Ill-formed input raises
  \<^verbatim>\<open>UnicodeDecodeError\<close>, here \<open>None\<close>.
\<close>

definition cont :: "nat \<Rightarrow> bool" where
  "cont b = (0x80 \<le> b \<and> b \<le> 0xBF)"

definition utf8_len :: "string \<Rightarrow> nat" where
  "utf8_len s =
     (case map of_char (take 4 s) :: nat list of
        [] \<Rightarrow> 0
      | b0 # r \<Rightarrow>
          if b0 < 0x80 then 1
          else if 0xC2 \<le> b0 \<and> b0 \<le> 0xDF
            then (case r of b1 # _ \<Rightarrow> if cont b1 then 2 else 0 | _ \<Rightarrow> 0)
          else if 0xE0 \<le> b0 \<and> b0 \<le> 0xEF
            then (case r of
                    b1 # b2 # _ \<Rightarrow>
                      if (if b0 = 0xE0 then 0xA0 else 0x80) \<le> b1
                         \<and> b1 \<le> (if b0 = 0xED then 0x9F else 0xBF) \<and> cont b2
                      then 3 else 0
                  | _ \<Rightarrow> 0)
          else if 0xF0 \<le> b0 \<and> b0 \<le> 0xF4
            then (case r of
                    b1 # b2 # b3 # _ \<Rightarrow>
                      if (if b0 = 0xF0 then 0x90 else 0x80) \<le> b1
                         \<and> b1 \<le> (if b0 = 0xF4 then 0x8F else 0xBF) \<and> cont b2 \<and> cont b3
                      then 4 else 0
                  | _ \<Rightarrow> 0)
          else 0)"

function valid_utf8 :: "string \<Rightarrow> bool" where
  "valid_utf8 s =
     (if s = [] then True
      else if utf8_len s = 0 then False
      else valid_utf8 (drop (utf8_len s) s))"
  by pat_completeness auto
termination
  by (relation "measure length") auto

definition decode :: "string \<Rightarrow> string option" where
  "decode bs = (if valid_utf8 bs then Some bs else None)"

subsection \<open>\<^verbatim>\<open>sanitize_filename\<close>\<close>

text \<open>\<^verbatim>\<open>s.replace(a, b)\<close> for one-character \<open>a\<close> and \<open>b\<close>.\<close>

definition replace :: "char \<Rightarrow> char \<Rightarrow> string \<Rightarrow> string" where
  "replace a b s = map (\<lambda>c. if c = a then b else c) s"

definition sanitize_filename :: "string \<Rightarrow> string" where
  "sanitize_filename url =
     replace (CHR '':'') (CHR ''_'') (replace (CHR ''?'') (CHR ''_'') (replace (CHR ''/'') (CHR ''_'') url))"


subsection \<open>The environment of \<^verbatim>\<open>handle_client\<close>\<close>

text \<open>
  An entry of the cache directory is a regular file with its content, or a directory.
  \<open>fs\<close> maps a file name inside the cache directory to its entry. The cache directory
  is taken to exist (\<^verbatim>\<open>os.makedirs(CACHE_DIR, exist_ok=True)\<close> succeeds), so the names
  \<^verbatim>\<open>""\<close>, \<^verbatim>\<open>"."\<close> and \<^verbatim>\<open>".."\<close> joined to it name directories that exist.
\<close>

datatype fsnode = File string | Dir

definition path_node :: "(string \<rightharpoonup> fsnode) \<Rightarrow> string \<Rightarrow> fsnode option" where
  "path_node files name = (if name = [] \<or> name = ''.'' \<or> name = ''..'' then Some Dir else files name)"

text \<open>
  What the process does to the outside, in order: payloads passed to
  \<^verbatim>\<open>client_sock.sendall\<close>, calls of \<^verbatim>\<open>client_sock.close\<close>, calls of
  \<^verbatim>\<open>socket.gethostbyname\<close>, of \<^verbatim>\<open>server_sock.connect\<close>, of \<^verbatim>\<open>server_sock.sendall\<close> and
  of \<^verbatim>\<open>server_sock.close\<close>.
\<close>

datatype event =
    ClientSend string
  | ClientClose
  | Resolve string
  | Connect string nat
  | ServerSend string
  | ServerClose

record world =
  fs :: "string \<rightharpoonup> fsnode"
  trace :: "event list"

text \<open>
  \<^verbatim>\<open>gethostbyname\<close> returns an address, raises \<^verbatim>\<open>socket.gaierror\<close>, or raises something
  else (\<^verbatim>\<open>UnicodeError\<close> for a label that cannot be IDNA-encoded). A \<^verbatim>\<open>recv\<close> on the
  origin socket returns bytes (none at end of stream) or raises. Writing a cache file
  stores it, fails in \<^verbatim>\<open>open\<close> (nothing is created), or fails in \<^verbatim>\<open>write\<close> after the file
  was created, leaving the bytes written so far.
\<close>

datatype dns_result = Resolved string | Gaierror | DnsError

datatype recv_result = Data string | RecvError

datatype write_outcome = Stored | OpenFailed | WriteFailed string

text \<open>The two fields of \<^verbatim>\<open>urlparse\<close>'s result that the code reads.\<close>

record parse_result =
  netloc :: string
  path :: string

text \<open>
  \<open>urlparse\<close> is \<open>None\<close> where the library raises \<^verbatim>\<open>ValueError\<close>. \<open>server_recv ip req i\<close>
  is the result of the \<open>i\<close>-th \<^verbatim>\<open>server_sock.recv(8192)\<close> on a connection to \<open>ip\<close> on
  which \<open>req\<close> was sent.
\<close>

record env =
  urlparse :: "string \<Rightarrow> parse_result option"
  gethostbyname :: "string \<Rightarrow> dns_result"
  connect_ok :: "string \<Rightarrow> nat \<Rightarrow> bool"
  sendall_ok :: "string \<Rightarrow> string \<Rightarrow> bool"
  server_recv :: "string \<Rightarrow> string \<Rightarrow> nat \<Rightarrow> recv_result"
  disk_write :: "string \<Rightarrow> string \<Rightarrow> write_outcome"

text \<open>
  The client socket holds the segments that have arrived and are still unread.
  \<^verbatim>\<open>recv(n)\<close> returns at most \<open>n\<close> bytes of the first one and leaves the rest; with
  nothing pending the peer has closed and it returns no bytes.
\<close>

fun recv :: "nat \<Rightarrow> string list \<Rightarrow> string \<times> string list" where
  "recv n [] = ([], [])"
| "recv n (seg # segs) =
     (take n seg, if drop n seg = [] then segs else drop n seg # segs)"

subsection \<open>\<^verbatim>\<open>handle_client\<close>\<close>

definition emit :: "event \<Rightarrow> world \<Rightarrow> world" where
  "emit e w = w\<lparr>trace := trace w @ [e]\<rparr>"

definition bad_request :: string where
  "bad_request = ''HTTP/1.1 400 Bad Request'' @ CRLF @ CRLF"

definition bad_gateway :: string where
  "bad_gateway = ''HTTP/1.1 502 Bad Gateway'' @ CRLF @ CRLF"

definition internal_error :: string where
  "internal_error = ''HTTP/1.1 500 Internal Server Error'' @ CRLF @ CRLF"

definition ok_wrapper :: string where
  "ok_wrapper = ''HTTP/1.0 200 OK'' @ CRLF @ ''Content-Type: text/html'' @ CRLF @ CRLF"

text \<open>
  Lines 156 to 166. Leaving the \<^verbatim>\<open>try\<close> block runs the \<^verbatim>\<open>finally\<close> clause, which closes
  the client socket (once more, after an early \<^verbatim>\<open>return\<close> that closed it already). An
  exception first sends the 500 status line.
\<close>

definition close_finally :: "world \<Rightarrow> world" where
  "close_finally w = emit ClientClose w"

definition on_exception :: "world \<Rightarrow> world" where
  "on_exception w = close_finally (emit (ClientSend internal_error) w)"

text \<open>
  Lines 140 to 145: the loop ends when a \<^verbatim>\<open>recv\<close> returns no bytes or raises. It
  need not end; then the result is \<open>None\<close>.
\<close>

partial_function (option) recv_loop :: "(nat \<Rightarrow> recv_result) \<Rightarrow> nat \<Rightarrow> string \<Rightarrow> recv_result option" where
  "recv_loop rcv i response =
     (case rcv i of
        RecvError \<Rightarrow> Some RecvError
      | Data data \<Rightarrow>
          if data = [] then Some (Data response)
          else recv_loop rcv (Suc i) (response @ data))"

declare recv_loop.simps [code]

text \<open>Lines 114 to 134: the request sent to the origin.\<close>

definition dropped :: "string \<Rightarrow> bool" where
  "dropped header =
     (startswith (lower header) ''proxy-connection'' \<or> startswith (lower header) ''connection'')"

definition build_request :: "string \<Rightarrow> string \<Rightarrow> string \<Rightarrow> string list \<Rightarrow> string \<Rightarrow> string" where
  "build_request method path' host headers request =
     (let request_line = method @ '' '' @ path' @ '' HTTP/1.1'' @ CRLF;
          forward_headers =
            fold (\<lambda>header acc. if dropped header then acc else acc @ header @ CRLF) headers [];
          forward_headers = forward_headers @ ''Host: '' @ host @ CRLF;
          forward_headers = forward_headers @ ''Connection: close'' @ CRLF;
          forward_headers = forward_headers @ ''User-Agent: PythonProxy/1.0'' @ CRLF;
          full_request = request_line @ forward_headers @ CRLF
      in if upper method = ''POST''
         then (case find_str request (CRLF @ CRLF) of
                 None \<Rightarrow> full_request
               | Some body_index \<Rightarrow> full_request @ drop (body_index + 4) request)
         else full_request)"

text \<open>
  A call of \<^verbatim>\<open>handle_client\<close> returns, or it blocks for ever in the loop of lines 141
  to 145 when the origin neither closes nor fails. Both outcomes carry the world as the
  call left it.
\<close>

datatype outcome = Returns world | Hangs world

fun final :: "outcome \<Rightarrow> world" where
  "final (Returns w) = w"
| "final (Hangs w) = w"

text \<open>Lines 100 to 155: resolve, connect, send, read to the end, store, reply.\<close>

definition forward ::
  "env \<Rightarrow> string \<Rightarrow> string \<Rightarrow> string \<Rightarrow> string \<Rightarrow> string list \<Rightarrow> string \<Rightarrow> world \<Rightarrow> outcome" where
  "forward e request method host path' headers cache_file w =
     (case gethostbyname e host of
        Gaierror \<Rightarrow>
          Returns (close_finally (emit ClientClose (emit (ClientSend bad_gateway) (emit (Resolve host) w))))
      | DnsError \<Rightarrow> Returns (on_exception (emit (Resolve host) w))
      | Resolved server_ip \<Rightarrow>
          let w1 = emit (Connect server_ip 80) (emit (Resolve host) w) in
          if \<not> connect_ok e server_ip 80 then Returns (on_exception w1)
          else
            let full_request = build_request method path' host headers request;
                w2 = emit (ServerSend full_request) w1
            in
            if \<not> sendall_ok e server_ip full_request then Returns (on_exception w2)
            else
              (case recv_loop (server_recv e server_ip full_request) 0 [] of
                 None \<Rightarrow> Hangs w2
               | Some RecvError \<Rightarrow> Returns (on_exception w2)
               | Some (Data response) \<Rightarrow>
                   if upper method = ''GET'' then
                     (case disk_write e cache_file response of
                        OpenFailed \<Rightarrow> Returns (on_exception w2)
                      | WriteFailed part \<Rightarrow>
                          Returns (on_exception (w2\<lparr>fs := (fs w2)(cache_file \<mapsto> File part)\<rparr>))
                      | Stored \<Rightarrow>
                          Returns (close_finally (emit ServerClose (emit (ClientSend response)
                            (w2\<lparr>fs := (fs w2)(cache_file \<mapsto> File response)\<rparr>)))))
                   else Returns (close_finally (emit ServerClose (emit (ClientSend response) w2)))))"

text \<open>Lines 56 to 97: the target, the cache file and the cache hit.\<close>

definition dispatch :: "env \<Rightarrow> string \<Rightarrow> string \<Rightarrow> string \<Rightarrow> string list \<Rightarrow> world \<Rightarrow> outcome" where
  "dispatch e request method url0 headers w =
     (let url = (if startswith url0 ''/'' then drop 1 url0 else url0) in
      case urlparse e (if contains url ''://'' then url else ''http://'' @ url) of
        None \<Rightarrow> Returns (on_exception w)
      | Some parsed \<Rightarrow>
          let host = netloc parsed;
              path' = (if path parsed = [] then ''/'' else path parsed);
              cache_file = sanitize_filename url
          in
          if upper method = ''GET'' \<and> path_node (fs w) cache_file \<noteq> None then
            (case path_node (fs w) cache_file of
               Some (File content) \<Rightarrow>
                 let response = (if \<not> startswith content ''HTTP/'' then ok_wrapper @ content else content)
                 in Returns (close_finally (emit ClientClose (emit (ClientSend response) w)))
             | _ \<Rightarrow> Returns (on_exception w))
          else forward e request method host path' headers cache_file w)"

text \<open>Lines 30 to 52: decoding, the empty read, the lines, the request line.\<close>

definition process :: "env \<Rightarrow> string \<Rightarrow> world \<Rightarrow> outcome" where
  "process e data w =
     (case decode data of
        None \<Rightarrow> Returns (on_exception w)
      | Some request \<Rightarrow>
          if request = [] then Returns (close_finally (emit ClientClose w))
          else
            let lines = split_crlf request in
            if length lines = 0 then Returns (close_finally (emit ClientClose w))
            else
              let first_line = hd lines in
              (case split_ws first_line of
                 [method, url, protocol] \<Rightarrow> dispatch e request method url (tl lines) w
               | _ \<Rightarrow> Returns (close_finally (emit ClientClose (emit (ClientSend bad_request) w)))))"

text \<open>
  The whole function: one \<^verbatim>\<open>recv(8192)\<close> on the client socket (line 30), then the rest.
  The result is the client socket's unread input and the outcome.
\<close>

definition handle_client :: "env \<Rightarrow> string list \<Rightarrow> world \<Rightarrow> string list \<times> outcome" where
  "handle_client e client_sock w =
     (let (data, unread) = recv 8192 client_sock in (unread, process e data w))"

subsection \<open>Vocabulary of the statements\<close>

text \<open>
  Names for the intermediate values of \<^verbatim>\<open>handle_client\<close>: the tokens of the request line
  (line 45), the target after line 61, the URL given to \<^verbatim>\<open>urlparse\<close> (line 65), the path
  after line 72, the name of the cache file (line 79), the bytes replayed on a cache hit
  (lines 91, 92) and the request sent to the origin (line 127 and after).
\<close>

definition request_line :: "string \<Rightarrow> string list" where
  "request_line request = split_ws (hd (split_crlf request))"

definition stripped :: "string \<Rightarrow> string" where
  "stripped target = (if startswith target ''/'' then drop 1 target else target)"

definition absolute :: "string \<Rightarrow> string" where
  "absolute target = (if contains (stripped target) ''://'' then stripped target else ''http://'' @ stripped target)"

definition origin_path :: "parse_result \<Rightarrow> string" where
  "origin_path parsed = (if path parsed = [] then ''/'' else path parsed)"

definition cache_key :: "string \<Rightarrow> string" where
  "cache_key target = sanitize_filename (stripped target)"

definition replay :: "string \<Rightarrow> string" where
  "replay content = (if \<not> startswith content ''HTTP/'' then ok_wrapper @ content else content)"

definition outbound :: "string \<Rightarrow> parse_result \<Rightarrow> string \<Rightarrow> string" where
  "outbound method parsed request =
     build_request method (origin_path parsed) (netloc parsed) (tl (split_crlf request)) request"

text \<open>\<open>sends w evs\<close> is the world \<open>w\<close> after the events \<open>evs\<close>.\<close>

definition sends :: "world \<Rightarrow> event list \<Rightarrow> world" where
  "sends w evs = w\<lparr>trace := trace w @ evs\<rparr>"

subsection \<open>A scenario\<close>

text \<open>
  The client sends one GET for \<^verbatim>\<open>http://example.test/a.html\<close>; the name resolves, the
  origin accepts the connection, answers in one segment and closes; the disk takes every
  write. \<open>urlparse\<close> is the library's result at the URLs that are asked; the second
  one belongs to a host that has no address.
\<close>

definition example_request :: string where
  "example_request =
     ''GET http://example.test/a.html HTTP/1.1'' @ CRLF @ ''Host: example.test'' @ CRLF @ CRLF"

definition example_response :: string where
  "example_response = ''HTTP/1.0 200 OK'' @ CRLF @ CRLF @ ''<html>hi</html>''"

definition example_env :: env where
  "example_env =
     \<lparr>urlparse = map_of
        [(''http://example.test/a.html'', \<lparr>netloc = ''example.test'', path = ''/a.html''\<rparr>),
         (''http://nowhere.invalid/'', \<lparr>netloc = ''nowhere.invalid'', path = ''/''\<rparr>)],
      gethostbyname = (\<lambda>host. if host = ''example.test'' then Resolved ''192.0.2.1'' else Gaierror),
      connect_ok = (\<lambda>ip port. True),
      sendall_ok = (\<lambda>ip payload. True),
      server_recv = (\<lambda>ip payload i. if i = 0 then Data example_response else Data []),
      disk_write = (\<lambda>name content. Stored)\<rparr>"

text \<open>Whether a call returned.\<close>

definition returned :: "outcome \<Rightarrow> bool" where
  "returned out = (case out of Returns w \<Rightarrow> True | Hangs w \<Rightarrow> False)"

text \<open>Whether the first chunk of a connection is a request with three tokens and method GET.\<close>

definition is_get :: "string \<Rightarrow> bool" where
  "is_get data =
     (case request_line data of
        [method, url, protocol] \<Rightarrow> upper method = ''GET''
      | _ \<Rightarrow> False)"

text \<open>
  Connections handled one after the other, each with the resolver, origin and disk of
  its time. \<^verbatim>\<open>main\<close> starts a thread per connection; the interleaving of threads is not
  modelled. A call that hangs leaves the world as it was when it blocked.
\<close>

fun serve :: "(env \<times> string list) list \<Rightarrow> world \<Rightarrow> world" where
  "serve [] w = w"
| "serve ((e, sock) # conns) w = serve conns (final (snd (handle_client e sock w)))"

text \<open>A POST with a body, to the origin of the scenario.\<close>

definition example_post :: string where
  "example_post =
     ''POST http://example.test/a.html HTTP/1.1'' @ CRLF @ ''Host: example.test'' @ CRLF @ CRLF @ ''x=1''"

text \<open>A GET for a host that has no address.\<close>

definition nowhere_request :: string where
  "nowhere_request =
     ''GET http://nowhere.invalid/ HTTP/1.1'' @ CRLF @ ''Host: nowhere.invalid'' @ CRLF @ CRLF"

text \<open>The scenario on a disk that refuses to create files.\<close>

definition full_disk_env :: env where
  "full_disk_env = example_env\<lparr>disk_write := (\<lambda>name content. OpenFailed)\<rparr>"

text \<open>
  The headers of the outbound request in the words of the specification: a line starts
  case-insensitively with \<open>p\<close> (given in lower case) when its first \<open>length p\<close>
  characters, lowered, are \<open>p\<close>; the lines that do so for \<^verbatim>\<open>proxy-connection\<close> or
  \<^verbatim>\<open>connection\<close> are left out and every other line follows verbatim, each ended by
  CRLF. \<open>post_body\<close> is what lines 130 to 134 append.
\<close>

definition starts_ci :: "string \<Rightarrow> string \<Rightarrow> bool" where
  "starts_ci line p = (lower (take (length p) line) = p)"

definition connection_header :: "string \<Rightarrow> bool" where
  "connection_header line = (starts_ci line ''proxy-connection'' \<or> starts_ci line ''connection'')"

definition forwarded_headers :: "string list \<Rightarrow> string" where
  "forwarded_headers headers =
     concat (map (\<lambda>line. line @ CRLF) (filter (\<lambda>line. \<not> connection_header line) headers))"

definition post_body :: "string \<Rightarrow> string \<Rightarrow> string" where
  "post_body method request =
     (if upper method = ''POST''
      then (case find_str request (CRLF @ CRLF) of None \<Rightarrow> [] | Some i \<Rightarrow> drop (i + 4) request)
      else [])"

text \<open>The GET of the scenario from a client that speaks HTTP/1.0, without headers.\<close>

definition http10_request :: string where
  "http10_request = ''GET http://example.test/a.html HTTP/1.0'' @ CRLF @ CRLF"

text \<open>
  A GET as a client sends it that puts a slash before the URL
  (\<^verbatim>\<open>http://proxy:8888/example.test/a.html\<close> typed into a browser).
\<close>

definition slash_request :: string where
  "slash_request = ''GET /example.test/a.html HTTP/1.1'' @ CRLF @ ''Host: example.test'' @ CRLF @ CRLF"

section \<open>Properties\<close>

subsection \<open>Events and the stages of \<^verbatim>\<open>handle_client\<close>\<close>

lemma fs_emit [simp]: "fs (emit ev w) = fs w"
  by (simp add: emit_def)

lemma trace_emit [simp]: "trace (emit ev w) = trace w @ [ev]"
  by (simp add: emit_def)

lemma fs_close_finally [simp]: "fs (close_finally w) = fs w"
  by (simp add: close_finally_def)

lemma trace_close_finally [simp]: "trace (close_finally w) = trace w @ [ClientClose]"
  by (simp add: close_finally_def)

lemma fs_on_exception [simp]: "fs (on_exception w) = fs w"
  by (simp add: on_exception_def)

lemma trace_on_exception [simp]:
  "trace (on_exception w) = trace w @ [ClientSend internal_error, ClientClose]"
  by (simp add: on_exception_def)

lemma emit_sends: "emit ev (sends w evs) = sends w (evs @ [ev])"
  by (simp add: emit_def sends_def)

lemma emit_sends0: "emit ev w = sends w [ev]"
  by (simp add: emit_def sends_def)

lemma close_finally_sends: "close_finally (sends w evs) = sends w (evs @ [ClientClose])"
  by (simp add: close_finally_def emit_sends)

lemma fs_sends [simp]: "fs (sends w evs) = fs w"
  by (simp add: sends_def)

lemma trace_sends [simp]: "trace (sends w evs) = trace w @ evs"
  by (simp add: sends_def)

lemma sends_fs_update: "(sends w evs)\<lparr>fs := f\<rparr> = sends (w\<lparr>fs := f\<rparr>) evs"
  by (simp add: sends_def)

lemma split_crlf_not_Nil: "split_crlf s \<noteq> []"
  by (induction s rule: split_crlf.induct) (auto split: list.splits)

lemma handle_client_process:
  "handle_client e sock w = (snd (recv 8192 sock), process e (fst (recv 8192 sock)) w)"
  by (simp add: handle_client_def case_prod_beta)

lemma process_dispatch:
  assumes "decode data = Some request" and "request \<noteq> []"
    and "request_line request = [method, url, protocol]"
  shows "process e data w = dispatch e request method url (tl (split_crlf request)) w"
  using assms by (simp add: process_def Let_def split_crlf_not_Nil request_line_def)

lemma dispatch_alt:
  "dispatch e request method url0 headers w =
     (case urlparse e (absolute url0) of
        None \<Rightarrow> Returns (on_exception w)
      | Some parsed \<Rightarrow>
          if upper method = ''GET'' \<and> path_node (fs w) (cache_key url0) \<noteq> None then
            (case path_node (fs w) (cache_key url0) of
               Some (File content) \<Rightarrow> Returns (close_finally (emit ClientClose (emit (ClientSend (replay content)) w)))
             | _ \<Rightarrow> Returns (on_exception w))
          else forward e request method (netloc parsed) (origin_path parsed) headers (cache_key url0) w)"
  unfolding dispatch_def Let_def absolute_def cache_key_def stripped_def origin_path_def replay_def
  by (rule refl)

lemma dispatch_hit:
  assumes "upper method = ''GET''"
    and "urlparse e (absolute url0) = Some parsed"
    and "path_node (fs w) (cache_key url0) = Some (File content)"
  shows "dispatch e request method url0 headers w =
         Returns (sends w [ClientSend (replay content), ClientClose, ClientClose])"
  using assms
  by (simp add: dispatch_alt emit_sends0 emit_sends close_finally_sends)

lemma dispatch_forward:
  assumes "urlparse e (absolute url0) = Some parsed"
    and "upper method = ''GET'' \<longrightarrow> path_node (fs w) (cache_key url0) = None"
  shows "dispatch e request method url0 headers w =
         forward e request method (netloc parsed) (origin_path parsed) headers (cache_key url0) w"
  using assms
  by (auto simp add: dispatch_alt)

lemma forward_stored:
  assumes "gethostbyname e host = Resolved ip" and "connect_ok e ip 80"
    and "sendall_ok e ip (build_request method pth host headers request)"
    and "recv_loop (server_recv e ip (build_request method pth host headers request)) 0 [] = Some (Data response)"
    and "upper method = ''GET''"
    and "disk_write e key response = Stored"
  shows "forward e request method host pth headers key w =
         Returns (sends (w\<lparr>fs := (fs w)(key \<mapsto> File response)\<rparr>)
           [Resolve host, Connect ip 80, ServerSend (build_request method pth host headers request),
            ClientSend response, ServerClose, ClientClose])"
  using assms
  by (simp add: forward_def Let_def emit_sends0 emit_sends close_finally_sends sends_fs_update)

lemma forward_frame:
  "name \<noteq> key \<Longrightarrow> fs (final (forward e request method host pth headers key w)) name = fs w name"
  by (simp add: forward_def Let_def
      split: dns_result.splits option.splits recv_result.splits write_outcome.splits)

lemma forward_non_get:
  "upper method \<noteq> ''GET'' \<Longrightarrow> fs (final (forward e request method host pth headers key w)) = fs w"
  by (simp add: forward_def Let_def
      split: dns_result.splits option.splits recv_result.splits write_outcome.splits)

lemma forward_trace_cong:
  "trace w1 = trace w2 \<Longrightarrow>
   trace (final (forward e request method host pth headers key w1)) =
   trace (final (forward e request method host pth headers key w2))
   \<and> returned (forward e request method host pth headers key w1) =
     returned (forward e request method host pth headers key w2)"
  by (simp add: forward_def Let_def returned_def
      split: dns_result.splits option.splits recv_result.splits write_outcome.splits)

lemma forward_sent:
  assumes "gethostbyname e host = Resolved ip" and "connect_ok e ip 80"
  shows "\<exists>evs. trace (final (forward e request method host pth headers key w)) =
           trace w @ [Resolve host, Connect ip 80,
                      ServerSend (build_request method pth host headers request)] @ evs
         \<and> (\<forall>x. ServerSend x \<notin> set evs)"
  using assms
  by (simp add: forward_def Let_def
      split: dns_result.splits option.splits recv_result.splits write_outcome.splits)

lemma decode_Some: "decode data = Some request \<Longrightarrow> request = data"
  by (auto simp: decode_def split: if_splits)

lemma dispatch_non_get:
  "upper method \<noteq> ''GET'' \<Longrightarrow> fs (final (dispatch e request method url0 headers w)) = fs w"
  by (simp add: dispatch_alt forward_non_get split: option.splits)

lemma process_non_get:
  assumes "\<not> is_get data"
  shows "fs (final (process e data w)) = fs w"
proof (cases "decode data")
  case None
  then show ?thesis by (simp add: process_def)
next
  case (Some request)
  then have [simp]: "request = data" by (rule decode_Some)
  show ?thesis
  proof (cases "\<exists>method url protocol. request_line data = [method, url, protocol]")
    case True
    then obtain m u p where rl: "request_line data = [m, u, p]"
      by blast
    with assms have "upper m \<noteq> ''GET''" by (simp add: is_get_def)
    then show ?thesis
    proof (cases "data = []")
      case True
      with Some show ?thesis by (simp add: process_def)
    next
      case False
      with Some rl have "process e data w = dispatch e data m u (tl (split_crlf data)) w"
        by (simp add: process_dispatch)
      with \<open>upper m \<noteq> ''GET''\<close> show ?thesis by (simp add: dispatch_non_get)
    qed
  next
    case False
    then show ?thesis
      using Some
      by (simp add: process_def Let_def request_line_def split: list.splits)
  qed
qed

lemma process_malformed:
  assumes "decode data = Some request" and "request \<noteq> []"
    and "length (request_line request) \<noteq> 3"
  shows "process e data w = Returns (sends w [ClientSend bad_request, ClientClose, ClientClose])"
proof -
  have "(case split_ws (hd (split_crlf request)) of
           [method, url, protocol] \<Rightarrow> dispatch e request method url (tl (split_crlf request)) w
         | _ \<Rightarrow> Returns (close_finally (emit ClientClose (emit (ClientSend bad_request) w)))) =
        Returns (close_finally (emit ClientClose (emit (ClientSend bad_request) w)))"
    using assms(3) by (auto simp add: request_line_def split: list.splits)
  with assms(1,2) show ?thesis
    by (simp add: process_def Let_def split_crlf_not_Nil emit_sends0 emit_sends close_finally_sends)
qed

lemma forward_gaierror:
  assumes "gethostbyname e host = Gaierror"
  shows "forward e request method host pth headers key w =
         Returns (sends w [Resolve host, ClientSend bad_gateway, ClientClose, ClientClose])"
  using assms by (simp add: forward_def emit_sends0 emit_sends close_finally_sends)

lemma forward_write_failed:
  assumes "gethostbyname e host = Resolved ip" and "connect_ok e ip 80"
    and "sendall_ok e ip (build_request method pth host headers request)"
    and "recv_loop (server_recv e ip (build_request method pth host headers request)) 0 [] = Some (Data response)"
    and "upper method = ''GET''"
    and "disk_write e key response \<noteq> Stored"
  shows "\<exists>w'. forward e request method host pth headers key w = Returns w'
           \<and> trace w' = trace w @
               [Resolve host, Connect ip 80, ServerSend (build_request method pth host headers request),
                ClientSend internal_error, ClientClose]"
  using assms by (simp add: forward_def Let_def split: write_outcome.splits)

lemma dropped_connection_header: "dropped line = connection_header line"
  by (simp only: dropped_def connection_header_def starts_ci_def startswith_def lower_def take_map)

lemma fold_forwarded_headers:
  "fold (\<lambda>header acc. if dropped header then acc else acc @ header @ CRLF) headers acc =
     acc @ forwarded_headers headers"
  by (induction headers arbitrary: acc)
     (simp_all add: forwarded_headers_def dropped_connection_header)

lemma build_request_eq:
  "build_request method pth host headers request =
     method @ '' '' @ pth @ '' HTTP/1.1'' @ CRLF
       @ forwarded_headers headers
       @ ''Host: '' @ host @ CRLF @ ''Connection: close'' @ CRLF
       @ ''User-Agent: PythonProxy/1.0'' @ CRLF @ CRLF
       @ post_body method request"
  unfolding build_request_def Let_def fold_forwarded_headers post_body_def
  by (simp split: option.splits)

lemma handle_client_forwarded:
  assumes "decode (fst (recv 8192 sock)) = Some request" and "request \<noteq> []"
    and "request_line request = [method, url0, protocol]"
    and "urlparse e (absolute url0) = Some parsed"
    and "upper method = ''GET'' \<longrightarrow> path_node (fs w) (cache_key url0) = None"
    and "gethostbyname e (netloc parsed) = Resolved ip" and "connect_ok e ip 80"
  shows "\<exists>evs. trace (final (snd (handle_client e sock w))) =
           trace w @ [Resolve (netloc parsed), Connect ip 80,
                      ServerSend (outbound method parsed request)] @ evs
         \<and> (\<forall>x. ServerSend x \<notin> set evs)"
  using assms(1-5) forward_sent [OF assms(6,7)]
  by (simp add: handle_client_process process_dispatch dispatch_forward outbound_def)

lemma dispatch_frame:
  "name \<noteq> cache_key url0 \<Longrightarrow>
   fs (final (dispatch e request method url0 headers w)) name = fs w name"
  by (simp add: dispatch_alt forward_frame split: option.splits fsnode.splits)

lemma dispatch_trace_cong:
  assumes "trace w2 = trace w"
    and "path_node (fs w2) (cache_key url0) = path_node (fs w) (cache_key url0)"
  shows "trace (final (dispatch e request method url0 headers w2)) =
         trace (final (dispatch e request method url0 headers w))
       \<and> returned (dispatch e request method url0 headers w2) =
         returned (dispatch e request method url0 headers w)"
  using assms forward_trace_cong [OF assms(1)]
  by (simp add: dispatch_alt returned_def split: option.splits fsnode.splits)

subsection \<open>The scenario, evaluated\<close>

lemma example_decode: "decode (fst (recv 8192 [example_request])) = Some example_request"
  by (simp add: example_request_def decode_def utf8_len_def)

lemma example_request_not_Nil: "example_request \<noteq> []"
  by (simp add: example_request_def)

lemma example_request_line:
  "request_line example_request = [''GET'', ''http://example.test/a.html'', ''HTTP/1.1'']"
  by (simp add: example_request_def request_line_def split_ws_def ws_len_def)

lemma upper_GET: "upper ''GET'' = ''GET''"
  by (simp add: upper_char_def)

lemma example_absolute: "absolute ''http://example.test/a.html'' = ''http://example.test/a.html''"
  by (simp add: absolute_def stripped_def startswith_def contains_def find_str_def)

lemma example_key: "cache_key ''http://example.test/a.html'' = ''http___example.test_a.html''"
  by (simp add: cache_key_def stripped_def startswith_def sanitize_filename_def replace_def)

lemma example_urlparse:
  "urlparse example_env (absolute ''http://example.test/a.html'') =
     Some \<lparr>netloc = ''example.test'', path = ''/a.html''\<rparr>"
  by (simp add: example_absolute example_env_def)

lemma example_recv_loop:
  "recv_loop (server_recv example_env ip payload) 0 [] = Some (Data example_response)"
  by (simp add: recv_loop.simps example_env_def example_response_def)

lemma example_replay: "replay example_response = example_response"
  by (simp add: replay_def example_response_def startswith_def)

lemmas eval_defs = handle_client_def process_def dispatch_def forward_def build_request_def
  decode_def utf8_len_def split_ws_def ws_len_def upper_char_def lower_char_def lower_def dropped_def
  startswith_def contains_def find_str_def sanitize_filename_def replace_def path_node_def
  Let_def emit_def close_finally_def on_exception_def recv_loop.simps

lemma example_post_run:
  "handle_client example_env [example_post] w =
   ([], Returns (sends w [Resolve ''example.test'', Connect ''192.0.2.1'' 80,
      ServerSend (''POST /a.html HTTP/1.1'' @ CRLF @ ''Host: example.test'' @ CRLF @ CRLF @ ''x=1'' @ CRLF
         @ ''Host: example.test'' @ CRLF @ ''Connection: close'' @ CRLF @ ''User-Agent: PythonProxy/1.0'' @ CRLF @ CRLF @ ''x=1''),
      ClientSend example_response, ServerClose, ClientClose]))"
  by (simp add: eval_defs example_env_def example_post_def sends_def)

lemma example_post_not_get: "\<not> is_get (fst (recv 8192 [example_post]))"
  by (simp add: is_get_def request_line_def example_post_def split_ws_def ws_len_def upper_char_def)

lemma http10_decode: "decode (fst (recv 8192 [http10_request])) = Some http10_request"
  by (simp add: http10_request_def decode_def utf8_len_def)

lemma http10_request_line:
  "request_line http10_request = [''GET'', ''http://example.test/a.html'', ''HTTP/1.0'']"
  by (simp add: http10_request_def request_line_def split_ws_def ws_len_def)

lemma slash_decode: "decode (fst (recv 8192 [slash_request])) = Some slash_request"
  by (simp add: slash_request_def decode_def utf8_len_def)

lemma slash_request_line:
  "request_line slash_request = [''GET'', ''/example.test/a.html'', ''HTTP/1.1'']"
  by (simp add: slash_request_def request_line_def split_ws_def ws_len_def)

lemma slash_key: "sanitize_filename (stripped ''/example.test/a.html'') = ''example.test_a.html''"
  by (simp add: stripped_def startswith_def sanitize_filename_def replace_def)

subsection \<open>Cache hits\<close>

text \<open>
  C1. A GET whose cache file exists as a regular file is answered from that file: the
  only events are the reply to the client and the two closes of the client socket; no
  name is resolved and no connection is opened. Consequently, when a GET misses, is
  forwarded and its response is stored, the same GET handled next is a hit, and over
  the two requests the origin is resolved, connected to and sent to exactly once.
\<close>

theorem cache_hit_skips_origin:
  assumes "decode (fst (recv 8192 sock)) = Some request" and "request \<noteq> []"
    and "request_line request = [method, url0, protocol]"
    and "upper method = ''GET''"
    and "urlparse e (absolute url0) = Some parsed"
  shows "(path_node (fs w) (cache_key url0) = Some (File content) \<longrightarrow>
            handle_client e sock w =
              (snd (recv 8192 sock), Returns (sends w [ClientSend (replay content), ClientClose, ClientClose])))
       \<and> (path_node (fs w) (cache_key url0) = None
            \<and> gethostbyname e (netloc parsed) = Resolved ip \<and> connect_ok e ip 80
            \<and> sendall_ok e ip (outbound method parsed request)
            \<and> recv_loop (server_recv e ip (outbound method parsed request)) 0 [] = Some (Data response)
            \<and> disk_write e (cache_key url0) response = Stored \<longrightarrow>
            (\<exists>w1 w2. handle_client e sock w = (snd (recv 8192 sock), Returns (w1))
               \<and> handle_client e sock w1 = (snd (recv 8192 sock), Returns (w2))
               \<and> trace w2 = trace w @
                    [Resolve (netloc parsed), Connect ip 80, ServerSend (outbound method parsed request), ClientSend response,
                     ServerClose, ClientClose,
                     ClientSend (replay response), ClientClose, ClientClose]))"
proof (intro conjI impI)
  assume "path_node (fs w) (cache_key url0) = Some (File content)"
  with assms show "handle_client e sock w =
      (snd (recv 8192 sock), Returns (sends w [ClientSend (replay content), ClientClose, ClientClose]))"
    by (simp add: handle_client_process process_dispatch dispatch_hit)
next
  assume h: "path_node (fs w) (cache_key url0) = None
            \<and> gethostbyname e (netloc parsed) = Resolved ip \<and> connect_ok e ip 80
            \<and> sendall_ok e ip (outbound method parsed request)
            \<and> recv_loop (server_recv e ip (outbound method parsed request)) 0 [] = Some (Data response)
            \<and> disk_write e (cache_key url0) response = Stored"
  let ?w1 = "sends (w\<lparr>fs := (fs w)(cache_key url0 \<mapsto> File response)\<rparr>)
           [Resolve (netloc parsed), Connect ip 80, ServerSend (outbound method parsed request),
            ClientSend response, ServerClose, ClientClose]"
  let ?w2 = "sends ?w1 [ClientSend (replay response), ClientClose, ClientClose]"
  have fwd: "forward e request method (netloc parsed) (origin_path parsed)
               (tl (split_crlf request)) (cache_key url0) w = Returns ?w1"
    using h assms(4) by (intro forward_stored [THEN trans]) (simp_all add: outbound_def)
  have first: "handle_client e sock w = (snd (recv 8192 sock), Returns (?w1))"
    using assms h fwd
    by (simp add: handle_client_process process_dispatch dispatch_forward)
  have key: "cache_key url0 \<noteq> [] \<and> cache_key url0 \<noteq> ''.'' \<and> cache_key url0 \<noteq> ''..''"
    using h by (auto simp: path_node_def split: if_splits)
  then have "path_node (fs ?w1) (cache_key url0) = Some (File response)"
    by (simp add: path_node_def)
  with assms have second: "handle_client e sock ?w1 = (snd (recv 8192 sock), Returns (?w2))"
    by (simp add: handle_client_process process_dispatch dispatch_hit)
  have "trace ?w2 = trace w @
                    [Resolve (netloc parsed), Connect ip 80, ServerSend (outbound method parsed request), ClientSend response,
                     ServerClose, ClientClose,
                     ClientSend (replay response), ClientClose, ClientClose]"
    by simp
  with first second show "\<exists>w1 w2. handle_client e sock w = (snd (recv 8192 sock), Returns (w1))
               \<and> handle_client e sock w1 = (snd (recv 8192 sock), Returns (w2))
               \<and> trace w2 = trace w @
                    [Resolve (netloc parsed), Connect ip 80, ServerSend (outbound method parsed request), ClientSend response,
                     ServerClose, ClientClose,
                     ClientSend (replay response), ClientClose, ClientClose]"
    by blast
qed

theorem cache_hit_skips_origin_witness:
  "decode (fst (recv 8192 [example_request])) = Some example_request
   \<and> request_line example_request = [''GET'', ''http://example.test/a.html'', ''HTTP/1.1'']
   \<and> handle_client example_env [example_request]
         \<lparr>fs = [''http___example.test_a.html'' \<mapsto> File example_response], trace = []\<rparr> =
       ([], Returns \<lparr>fs = [''http___example.test_a.html'' \<mapsto> File example_response],
                  trace = [ClientSend example_response, ClientClose, ClientClose]\<rparr>)
   \<and> (\<exists>w1 w2. handle_client example_env [example_request] \<lparr>fs = Map.empty, trace = []\<rparr> = ([], Returns (w1))
         \<and> handle_client example_env [example_request] w1 = ([], Returns (w2))
         \<and> trace w2 =
             [Resolve ''example.test'', Connect ''192.0.2.1'' 80,
              ServerSend (outbound ''GET'' \<lparr>netloc = ''example.test'', path = ''/a.html''\<rparr> example_request),
              ClientSend example_response, ServerClose, ClientClose,
              ClientSend example_response, ClientClose, ClientClose])"
proof -
  note T = cache_hit_skips_origin [OF example_decode example_request_not_Nil
      example_request_line upper_GET example_urlparse]
  let ?hit = "\<lparr>fs = [''http___example.test_a.html'' \<mapsto> File example_response], trace = []\<rparr>"
  let ?miss = "\<lparr>fs = Map.empty, trace = []\<rparr>"
  have unread: "snd (recv 8192 [example_request]) = []"
    by (simp add: example_request_def)
  have "path_node (fs ?hit) (cache_key ''http://example.test/a.html'') = Some (File example_response)"
    by (simp add: example_key path_node_def)
  from T [THEN conjunct1, rule_format, OF this]
  have hit: "handle_client example_env [example_request] ?hit =
       ([], Returns \<lparr>fs = [''http___example.test_a.html'' \<mapsto> File example_response],
                  trace = [ClientSend example_response, ClientClose, ClientClose]\<rparr>)"
    unfolding unread example_replay by (simp add: sends_def)
  have "path_node (fs ?miss) (cache_key ''http://example.test/a.html'') = None
      \<and> gethostbyname example_env (netloc \<lparr>netloc = ''example.test'', path = ''/a.html''\<rparr>) = Resolved ''192.0.2.1''
      \<and> connect_ok example_env ''192.0.2.1'' 80
      \<and> sendall_ok example_env ''192.0.2.1'' (outbound ''GET'' \<lparr>netloc = ''example.test'', path = ''/a.html''\<rparr> example_request)
      \<and> recv_loop (server_recv example_env ''192.0.2.1'' (outbound ''GET'' \<lparr>netloc = ''example.test'', path = ''/a.html''\<rparr> example_request)) 0 [] = Some (Data example_response)
      \<and> disk_write example_env (cache_key ''http://example.test/a.html'') example_response = Stored"
    by (simp add: example_key path_node_def example_recv_loop) (simp add: example_env_def)
  from T [THEN conjunct2, rule_format, OF this]
  have twice: "\<exists>w1 w2. handle_client example_env [example_request] ?miss = ([], Returns (w1))
         \<and> handle_client example_env [example_request] w1 = ([], Returns (w2))
         \<and> trace w2 =
             [Resolve ''example.test'', Connect ''192.0.2.1'' 80,
              ServerSend (outbound ''GET'' \<lparr>netloc = ''example.test'', path = ''/a.html''\<rparr> example_request),
              ClientSend example_response, ServerClose, ClientClose,
              ClientSend example_response, ClientClose, ClientClose]"
    unfolding unread example_replay by simp
  from example_decode example_request_line hit twice show ?thesis by blast
qed

subsection \<open>The cache key\<close>

text \<open>
  C2, amended. The name of the cache file is \<^verbatim>\<open>sanitize_filename\<close> applied to the request
  target after line 61 removed one leading slash, if there was one. It is the one name
  the call depends on and acts on: no other file of the cache changes; worlds that agree
  on that name (and on the events so far) give the same events and the same outcome;
  and the response of a forwarded GET is stored under that name.
\<close>

theorem cache_key_of_stripped_target:
  assumes "decode (fst (recv 8192 sock)) = Some request" and "request \<noteq> []"
    and "request_line request = [method, url0, protocol]"
  shows "(\<forall>name. name \<noteq> sanitize_filename (stripped url0) \<longrightarrow>
            fs (final (snd (handle_client e sock w))) name = fs w name)
       \<and> (\<forall>w2. trace w2 = trace w
              \<and> path_node (fs w2) (sanitize_filename (stripped url0)) =
                path_node (fs w) (sanitize_filename (stripped url0)) \<longrightarrow>
            trace (final (snd (handle_client e sock w2))) = trace (final (snd (handle_client e sock w)))
            \<and> returned (snd (handle_client e sock w2)) = returned (snd (handle_client e sock w)))
       \<and> (\<forall>parsed ip response.
            upper method = ''GET'' \<and> urlparse e (absolute url0) = Some parsed
            \<and> path_node (fs w) (sanitize_filename (stripped url0)) = None
            \<and> gethostbyname e (netloc parsed) = Resolved ip \<and> connect_ok e ip 80
            \<and> sendall_ok e ip (outbound method parsed request)
            \<and> recv_loop (server_recv e ip (outbound method parsed request)) 0 [] = Some (Data response)
            \<and> disk_write e (sanitize_filename (stripped url0)) response = Stored \<longrightarrow>
            fs (final (snd (handle_client e sock w))) =
              (fs w)(sanitize_filename (stripped url0) \<mapsto> File response))"
proof (intro conjI allI impI)
  fix name assume "name \<noteq> sanitize_filename (stripped url0)"
  then show "fs (final (snd (handle_client e sock w))) name = fs w name"
    using assms by (simp add: handle_client_process process_dispatch dispatch_frame cache_key_def)
next
  fix w2 :: world
  assume a: "trace w2 = trace w
              \<and> path_node (fs w2) (sanitize_filename (stripped url0)) =
                path_node (fs w) (sanitize_filename (stripped url0))"
  then have "trace (final (dispatch e request method url0 (tl (split_crlf request)) w2)) =
         trace (final (dispatch e request method url0 (tl (split_crlf request)) w))
       \<and> returned (dispatch e request method url0 (tl (split_crlf request)) w2) =
         returned (dispatch e request method url0 (tl (split_crlf request)) w)"
    by (intro dispatch_trace_cong) (simp_all add: cache_key_def)
  then show "trace (final (snd (handle_client e sock w2))) = trace (final (snd (handle_client e sock w)))"
    and "returned (snd (handle_client e sock w2)) = returned (snd (handle_client e sock w))"
    using assms by (simp_all add: handle_client_process process_dispatch)
next
  fix parsed ip response
  assume a: "upper method = ''GET'' \<and> urlparse e (absolute url0) = Some parsed
            \<and> path_node (fs w) (sanitize_filename (stripped url0)) = None
            \<and> gethostbyname e (netloc parsed) = Resolved ip \<and> connect_ok e ip 80
            \<and> sendall_ok e ip (outbound method parsed request)
            \<and> recv_loop (server_recv e ip (outbound method parsed request)) 0 [] = Some (Data response)
            \<and> disk_write e (sanitize_filename (stripped url0)) response = Stored"
  then have "forward e request method (netloc parsed) (origin_path parsed)
               (tl (split_crlf request)) (cache_key url0) w =
             Returns (sends (w\<lparr>fs := (fs w)(cache_key url0 \<mapsto> File response)\<rparr>)
               [Resolve (netloc parsed), Connect ip 80,
                ServerSend (build_request method (origin_path parsed) (netloc parsed)
                  (tl (split_crlf request)) request),
                ClientSend response, ServerClose, ClientClose])"
    by (intro forward_stored) (simp_all add: outbound_def cache_key_def)
  with a assms show "fs (final (snd (handle_client e sock w))) =
              (fs w)(sanitize_filename (stripped url0) \<mapsto> File response)"
    by (simp add: handle_client_process process_dispatch dispatch_forward cache_key_def)
qed

theorem cache_key_of_stripped_target_witness:
  "request_line slash_request = [''GET'', ''/example.test/a.html'', ''HTTP/1.1'']
   \<and> sanitize_filename (stripped ''/example.test/a.html'') = ''example.test_a.html''
   \<and> fs (final (snd (handle_client example_env [slash_request] \<lparr>fs = Map.empty, trace = []\<rparr>))) =
       [''example.test_a.html'' \<mapsto> File example_response]
   \<and> fs (final (snd (handle_client example_env [slash_request] \<lparr>fs = Map.empty, trace = []\<rparr>)))
         ''_example.test_a.html'' = None"
proof -
  let ?w = "\<lparr>fs = Map.empty, trace = []\<rparr>"
  let ?parsed = "\<lparr>netloc = ''example.test'', path = ''/a.html''\<rparr>"
  have n: "slash_request \<noteq> []" by (simp add: slash_request_def)
  note T = cache_key_of_stripped_target [OF slash_decode n slash_request_line, of example_env ?w]
  have "upper ''GET'' = ''GET'' \<and> urlparse example_env (absolute ''/example.test/a.html'') = Some ?parsed
      \<and> path_node (fs ?w) (sanitize_filename (stripped ''/example.test/a.html'')) = None
      \<and> gethostbyname example_env (netloc ?parsed) = Resolved ''192.0.2.1''
      \<and> connect_ok example_env ''192.0.2.1'' 80
      \<and> sendall_ok example_env ''192.0.2.1'' (outbound ''GET'' ?parsed slash_request)
      \<and> recv_loop (server_recv example_env ''192.0.2.1'' (outbound ''GET'' ?parsed slash_request)) 0 [] =
          Some (Data example_response)
      \<and> disk_write example_env (sanitize_filename (stripped ''/example.test/a.html'')) example_response = Stored"
    by (simp add: upper_GET slash_key example_recv_loop path_node_def)
       (simp add: example_env_def absolute_def stripped_def startswith_def contains_def find_str_def
          upper_char_def)
  from T [THEN conjunct2, THEN conjunct2, rule_format, OF this]
  have stored: "fs (final (snd (handle_client example_env [slash_request] ?w))) =
       [''example.test_a.html'' \<mapsto> File example_response]"
    by (simp add: slash_key)
  have "''_example.test_a.html'' \<noteq> sanitize_filename (stripped ''/example.test/a.html'')"
    by (simp add: slash_key)
  from T [THEN conjunct1, rule_format, OF this]
  have other: "fs (final (snd (handle_client example_env [slash_request] ?w))) ''_example.test_a.html'' = None"
    by simp
  from slash_request_line slash_key stored other show ?thesis by blast
qed

text \<open>
  C2 as stated fails for a target with a leading slash: the key is not the substitution
  applied to the target as it stood on the request line. After the GET for
  \<^verbatim>\<open>/example.test/a.html\<close> nothing is stored under \<^verbatim>\<open>_example.test_a.html\<close>; the response is
  under \<^verbatim>\<open>example.test_a.html\<close>.
\<close>

theorem leading_slash_key_counterexample:
  "request_line slash_request = [''GET'', ''/example.test/a.html'', ''HTTP/1.1'']
   \<and> sanitize_filename ''/example.test/a.html'' = ''_example.test_a.html''
   \<and> fs (final (snd (handle_client example_env [slash_request] \<lparr>fs = Map.empty, trace = []\<rparr>)))
         ''_example.test_a.html'' = None
   \<and> fs (final (snd (handle_client example_env [slash_request] \<lparr>fs = Map.empty, trace = []\<rparr>)))
         ''example.test_a.html'' = Some (File example_response)"
  by (simp add: eval_defs example_env_def slash_request_def request_line_def)

subsection \<open>Malformed request lines\<close>

text \<open>
  C3, amended. When the chunk read from the client is not empty, decodes as UTF-8, and
  its first line does not split into exactly three tokens, the client is sent the 400
  status line followed by an empty line, the client socket is closed, and nothing else
  happens: no name is resolved, no connection is opened, the cache is as before.
\<close>

theorem malformed_request_line:
  assumes "decode (fst (recv 8192 sock)) = Some request" and "request \<noteq> []"
    and "length (request_line request) \<noteq> 3"
  shows "handle_client e sock w =
           (snd (recv 8192 sock),
            Returns (sends w [ClientSend (''HTTP/1.1 400 Bad Request'' @ CRLF @ CRLF), ClientClose, ClientClose]))"
  using process_malformed [OF assms] by (simp add: handle_client_process bad_request_def)

theorem malformed_request_line_witness:
  "decode (fst (recv 8192 [''GET'' @ CRLF])) = Some (''GET'' @ CRLF)
   \<and> request_line (''GET'' @ CRLF) = [''GET'']
   \<and> handle_client example_env [''GET'' @ CRLF] \<lparr>fs = Map.empty, trace = []\<rparr> =
       ([], Returns \<lparr>fs = Map.empty,
                      trace = [ClientSend (''HTTP/1.1 400 Bad Request'' @ CRLF @ CRLF), ClientClose, ClientClose]\<rparr>)"
proof -
  have d: "decode (fst (recv 8192 [''GET'' @ CRLF])) = Some (''GET'' @ CRLF)"
    by (simp add: decode_def utf8_len_def)
  have r: "request_line (''GET'' @ CRLF) = [''GET'']"
    by (simp add: request_line_def split_ws_def ws_len_def)
  have n: "''GET'' @ CRLF \<noteq> []" by simp
  have l: "length (request_line (''GET'' @ CRLF)) \<noteq> 3" by (simp only: r) simp
  have u: "snd (recv 8192 [''GET'' @ CRLF]) = []" by simp
  from malformed_request_line [OF d n l, of example_env "\<lparr>fs = Map.empty, trace = []\<rparr>"]
  have "handle_client example_env [''GET'' @ CRLF] \<lparr>fs = Map.empty, trace = []\<rparr> =
       ([], Returns \<lparr>fs = Map.empty,
                      trace = [ClientSend (''HTTP/1.1 400 Bad Request'' @ CRLF @ CRLF), ClientClose, ClientClose]\<rparr>)"
    unfolding u by (simp add: sends_def)
  with d r show ?thesis by blast
qed

text \<open>
  C3 as stated fails for a chunk that is not UTF-8: the byte \<open>0xFF\<close> is a request whose
  first line does not split into three tokens, \<^verbatim>\<open>decode\<close> raises, and the handler of
  line 157 answers with the 500 status line.
\<close>

theorem undecodable_request_counterexample:
  "length (request_line [CHR 0xFF]) \<noteq> 3
   \<and> handle_client example_env [[CHR 0xFF]] \<lparr>fs = Map.empty, trace = []\<rparr> =
       ([], Returns \<lparr>fs = Map.empty,
                      trace = [ClientSend (''HTTP/1.1 500 Internal Server Error'' @ CRLF @ CRLF), ClientClose]\<rparr>)"
  by (simp add: request_line_def split_ws_def ws_len_def handle_client_def process_def decode_def
      utf8_len_def on_exception_def close_finally_def emit_def internal_error_def)

subsection \<open>Failure to write the cache file\<close>

text \<open>
  C4, amended. For a GET that misses the cache and whose response was read from the
  origin to the end, a failure to write the cache file ends the call with the 500
  status line: that line is all the client is sent, the response read from the origin
  is not delivered.
\<close>

theorem cache_write_failure_aborts:
  assumes "decode (fst (recv 8192 sock)) = Some request" and "request \<noteq> []"
    and "request_line request = [method, url0, protocol]"
    and "upper method = ''GET''"
    and "urlparse e (absolute url0) = Some parsed"
    and "path_node (fs w) (cache_key url0) = None"
    and "gethostbyname e (netloc parsed) = Resolved ip" and "connect_ok e ip 80"
    and "sendall_ok e ip (outbound method parsed request)"
    and "recv_loop (server_recv e ip (outbound method parsed request)) 0 [] = Some (Data response)"
    and "disk_write e (cache_key url0) response \<noteq> Stored"
  shows "\<exists>w'. handle_client e sock w = (snd (recv 8192 sock), Returns w')
           \<and> trace w' = trace w @
               [Resolve (netloc parsed), Connect ip 80, ServerSend (outbound method parsed request),
                ClientSend (''HTTP/1.1 500 Internal Server Error'' @ CRLF @ CRLF), ClientClose]"
proof -
  have "dispatch e request method url0 (tl (split_crlf request)) w =
        forward e request method (netloc parsed) (origin_path parsed) (tl (split_crlf request))
          (cache_key url0) w"
    using assms(5,6) by (simp add: dispatch_forward)
  moreover have "\<exists>w'. forward e request method (netloc parsed) (origin_path parsed)
          (tl (split_crlf request)) (cache_key url0) w = Returns w'
        \<and> trace w' = trace w @
               [Resolve (netloc parsed), Connect ip 80, ServerSend (outbound method parsed request),
                ClientSend internal_error, ClientClose]"
    unfolding outbound_def
    using assms(7-11) assms(4) unfolding outbound_def by (intro forward_write_failed)
  ultimately show ?thesis
    using assms(1-3)
    by (simp add: handle_client_process process_dispatch internal_error_def)
qed

theorem cache_write_failure_aborts_witness:
  "disk_write full_disk_env (cache_key ''http://example.test/a.html'') example_response \<noteq> Stored
   \<and> (\<exists>w'. handle_client full_disk_env [example_request] \<lparr>fs = Map.empty, trace = []\<rparr> = ([], Returns w')
         \<and> trace w' =
             [Resolve ''example.test'', Connect ''192.0.2.1'' 80,
              ServerSend (outbound ''GET'' \<lparr>netloc = ''example.test'', path = ''/a.html''\<rparr> example_request),
              ClientSend (''HTTP/1.1 500 Internal Server Error'' @ CRLF @ CRLF), ClientClose])"
proof -
  let ?w = "\<lparr>fs = Map.empty, trace = []\<rparr>"
  let ?parsed = "\<lparr>netloc = ''example.test'', path = ''/a.html''\<rparr>"
  have p: "urlparse full_disk_env (absolute ''http://example.test/a.html'') = Some ?parsed"
    using example_urlparse by (simp add: full_disk_env_def)
  have m: "path_node (fs ?w) (cache_key ''http://example.test/a.html'') = None"
    by (simp add: example_key path_node_def)
  have g: "gethostbyname full_disk_env (netloc ?parsed) = Resolved ''192.0.2.1''"
    by (simp add: full_disk_env_def example_env_def)
  have c: "connect_ok full_disk_env ''192.0.2.1'' 80"
    by (simp add: full_disk_env_def example_env_def)
  have s: "sendall_ok full_disk_env ''192.0.2.1'' (outbound ''GET'' ?parsed example_request)"
    by (simp add: full_disk_env_def example_env_def)
  have l: "recv_loop (server_recv full_disk_env ''192.0.2.1'' (outbound ''GET'' ?parsed example_request)) 0 [] =
      Some (Data example_response)"
    using example_recv_loop by (simp add: full_disk_env_def)
  have f: "disk_write full_disk_env (cache_key ''http://example.test/a.html'') example_response \<noteq> Stored"
    by (simp add: full_disk_env_def)
  have u: "snd (recv 8192 [example_request]) = []" by (simp add: example_request_def)
  from cache_write_failure_aborts [OF example_decode example_request_not_Nil example_request_line
      upper_GET p m g c s l f]
  have "\<exists>w'. handle_client full_disk_env [example_request] ?w = ([], Returns w')
         \<and> trace w' =
             [Resolve ''example.test'', Connect ''192.0.2.1'' 80,
              ServerSend (outbound ''GET'' ?parsed example_request),
              ClientSend (''HTTP/1.1 500 Internal Server Error'' @ CRLF @ CRLF), ClientClose]"
    unfolding u by simp
  with f show ?thesis by blast
qed

text \<open>
  C4 as stated fails in the scenario on a disk that refuses to create the file: the
  origin's response is read in full, and the client is sent the 500 status line instead
  of it.
\<close>

theorem cache_write_failure_counterexample:
  "recv_loop (server_recv full_disk_env ''192.0.2.1''
       (outbound ''GET'' \<lparr>netloc = ''example.test'', path = ''/a.html''\<rparr> example_request)) 0 [] =
     Some (Data example_response)
   \<and> disk_write full_disk_env ''http___example.test_a.html'' example_response = OpenFailed
   \<and> handle_client full_disk_env [example_request] \<lparr>fs = Map.empty, trace = []\<rparr> =
       ([], Returns \<lparr>fs = Map.empty,
          trace = [Resolve ''example.test'', Connect ''192.0.2.1'' 80,
                   ServerSend (''GET /a.html HTTP/1.1'' @ CRLF @ ''Host: example.test'' @ CRLF @ CRLF @ CRLF
                     @ ''Host: example.test'' @ CRLF @ ''Connection: close'' @ CRLF
                     @ ''User-Agent: PythonProxy/1.0'' @ CRLF @ CRLF),
                   ClientSend (''HTTP/1.1 500 Internal Server Error'' @ CRLF @ CRLF),
                   ClientClose]\<rparr>)"
  by (simp add: eval_defs full_disk_env_def example_env_def example_request_def example_response_def
      internal_error_def outbound_def origin_path_def)

subsection \<open>The outbound request\<close>

text \<open>
  C5, amended. For every request that is forwarded (three tokens, an accepted target,
  no cache hit, the host resolved and the origin connected), exactly one request is
  sent to the origin, and it begins with the line \<^verbatim>\<open><method> <path> HTTP/1.1\<close>: the
  version is the constant of line 114, whatever version the client sent.
\<close>

theorem outbound_request_line:
  assumes "decode (fst (recv 8192 sock)) = Some request" and "request \<noteq> []"
    and "request_line request = [method, url0, protocol]"
    and "urlparse e (absolute url0) = Some parsed"
    and "upper method = ''GET'' \<longrightarrow> path_node (fs w) (cache_key url0) = None"
    and "gethostbyname e (netloc parsed) = Resolved ip" and "connect_ok e ip 80"
  shows "\<exists>rest evs. trace (final (snd (handle_client e sock w))) =
           trace w @
             [Resolve (netloc parsed), Connect ip 80,
              ServerSend (method @ '' '' @ origin_path parsed @ '' HTTP/1.1'' @ CRLF @ rest)] @ evs
         \<and> (\<forall>x. ServerSend x \<notin> set evs)"
proof -
  from handle_client_forwarded [OF assms]
  obtain evs where "trace (final (snd (handle_client e sock w))) =
           trace w @ [Resolve (netloc parsed), Connect ip 80,
                      ServerSend (outbound method parsed request)] @ evs"
    and "\<forall>x. ServerSend x \<notin> set evs"
    by blast
  then show ?thesis
    unfolding outbound_def build_request_eq by blast
qed

theorem outbound_request_line_witness:
  "request_line http10_request = [''GET'', ''http://example.test/a.html'', ''HTTP/1.0'']
   \<and> (\<exists>rest evs.
         trace (final (snd (handle_client example_env [http10_request] \<lparr>fs = Map.empty, trace = []\<rparr>))) =
           [Resolve ''example.test'', Connect ''192.0.2.1'' 80,
            ServerSend (''GET /a.html HTTP/1.1'' @ CRLF @ rest)] @ evs
         \<and> (\<forall>x. ServerSend x \<notin> set evs))"
proof -
  let ?w = "\<lparr>fs = Map.empty, trace = []\<rparr>"
  let ?parsed = "\<lparr>netloc = ''example.test'', path = ''/a.html''\<rparr>"
  have n: "http10_request \<noteq> []" by (simp add: http10_request_def)
  have m: "upper ''GET'' = ''GET'' \<longrightarrow> path_node (fs ?w) (cache_key ''http://example.test/a.html'') = None"
    by (simp add: example_key path_node_def)
  have g: "gethostbyname example_env (netloc ?parsed) = Resolved ''192.0.2.1''"
    by (simp add: example_env_def)
  have c: "connect_ok example_env ''192.0.2.1'' 80"
    by (simp add: example_env_def)
  from outbound_request_line [OF http10_decode n http10_request_line example_urlparse m g c]
  have "\<exists>rest evs.
         trace (final (snd (handle_client example_env [http10_request] ?w))) =
           [Resolve ''example.test'', Connect ''192.0.2.1'' 80,
            ServerSend (''GET /a.html HTTP/1.1'' @ CRLF @ rest)] @ evs
         \<and> (\<forall>x. ServerSend x \<notin> set evs)"
    by (simp add: origin_path_def)
  with http10_request_line show ?thesis by blast
qed

text \<open>
  C5 as stated fails for a client that sends \<^verbatim>\<open>HTTP/1.0\<close>: the request line sent to the
  origin ends in \<^verbatim>\<open>HTTP/1.1\<close>.
\<close>

theorem http10_request_line_counterexample:
  "request_line http10_request = [''GET'', ''http://example.test/a.html'', ''HTTP/1.0'']
   \<and> handle_client example_env [http10_request] \<lparr>fs = Map.empty, trace = []\<rparr> =
       ([], Returns \<lparr>fs = [''http___example.test_a.html'' \<mapsto> File example_response],
          trace = [Resolve ''example.test'', Connect ''192.0.2.1'' 80,
                   ServerSend (''GET /a.html HTTP/1.1'' @ CRLF @ CRLF @ CRLF
                     @ ''Host: example.test'' @ CRLF @ ''Connection: close'' @ CRLF
                     @ ''User-Agent: PythonProxy/1.0'' @ CRLF @ CRLF),
                   ClientSend example_response, ServerClose, ClientClose]\<rparr>)"
  by (simp add: eval_defs example_env_def http10_request_def request_line_def)



subsection \<open>Names that do not resolve\<close>

text \<open>
  C7. For a request with three tokens whose target \<^verbatim>\<open>urlparse\<close> accepts, that is not a GET
  with an existing cache file, and whose host makes \<^verbatim>\<open>gethostbyname\<close> raise
  \<^verbatim>\<open>socket.gaierror\<close>: the name is looked up once, the client is sent the 502 status
  line followed by an empty line, the client socket is closed, and the cache is as
  before, so no file exists for the request's key.
\<close>

theorem dns_failure_bad_gateway:
  assumes "decode (fst (recv 8192 sock)) = Some request" and "request \<noteq> []"
    and "request_line request = [method, url0, protocol]"
    and "urlparse e (absolute url0) = Some parsed"
    and "upper method = ''GET'' \<longrightarrow> path_node (fs w) (cache_key url0) = None"
    and "gethostbyname e (netloc parsed) = Gaierror"
  shows "handle_client e sock w =
           (snd (recv 8192 sock),
            Returns (sends w [Resolve (netloc parsed),
                              ClientSend (''HTTP/1.1 502 Bad Gateway'' @ CRLF @ CRLF),
                              ClientClose, ClientClose]))
         \<and> fs (final (snd (handle_client e sock w))) = fs w"
  using assms
  by (simp add: handle_client_process process_dispatch dispatch_forward forward_gaierror
      bad_gateway_def)

theorem dns_failure_bad_gateway_witness:
  "request_line nowhere_request = [''GET'', ''http://nowhere.invalid/'', ''HTTP/1.1'']
   \<and> gethostbyname example_env ''nowhere.invalid'' = Gaierror
   \<and> handle_client example_env [nowhere_request] \<lparr>fs = Map.empty, trace = []\<rparr> =
       ([], Returns \<lparr>fs = Map.empty,
                      trace = [Resolve ''nowhere.invalid'',
                               ClientSend (''HTTP/1.1 502 Bad Gateway'' @ CRLF @ CRLF),
                               ClientClose, ClientClose]\<rparr>)"
proof -
  let ?w = "\<lparr>fs = Map.empty, trace = []\<rparr>"
  let ?parsed = "\<lparr>netloc = ''nowhere.invalid'', path = ''/''\<rparr>"
  have d: "decode (fst (recv 8192 [nowhere_request])) = Some nowhere_request"
    by (simp add: nowhere_request_def decode_def utf8_len_def)
  have n: "nowhere_request \<noteq> []" by (simp add: nowhere_request_def)
  have r: "request_line nowhere_request = [''GET'', ''http://nowhere.invalid/'', ''HTTP/1.1'']"
    by (simp add: nowhere_request_def request_line_def split_ws_def ws_len_def)
  have p: "urlparse example_env (absolute ''http://nowhere.invalid/'') = Some ?parsed"
    by (simp add: absolute_def stripped_def startswith_def contains_def find_str_def example_env_def)
  have m: "upper ''GET'' = ''GET'' \<longrightarrow> path_node (fs ?w) (cache_key ''http://nowhere.invalid/'') = None"
    by (simp add: cache_key_def stripped_def startswith_def sanitize_filename_def replace_def path_node_def)
  have g: "gethostbyname example_env (netloc ?parsed) = Gaierror"
    by (simp add: example_env_def)
  have u: "snd (recv 8192 [nowhere_request]) = []" by (simp add: nowhere_request_def)
  from dns_failure_bad_gateway [OF d n r p m g, THEN conjunct1]
  have "handle_client example_env [nowhere_request] ?w =
       ([], Returns \<lparr>fs = Map.empty,
                      trace = [Resolve ''nowhere.invalid'',
                               ClientSend (''HTTP/1.1 502 Bad Gateway'' @ CRLF @ CRLF),
                               ClientClose, ClientClose]\<rparr>)"
    unfolding u by (simp add: sends_def)
  with r g show ?thesis by simp
qed

subsection \<open>Requests other than GET\<close>

text \<open>
  C8. Handling connections none of which carries a GET leaves the cache as it was,
  whatever the origins answer, however many such connections there are, and whether the
  calls return or hang; so a cache file that was absent before them is absent after them.
\<close>

theorem non_get_never_cached:
  assumes "\<forall>(e, sock) \<in> set conns. \<not> is_get (fst (recv 8192 sock))"
  shows "fs (serve conns w) = fs w"
  using assms
  by (induction conns arbitrary: w) (auto simp: handle_client_process process_non_get)

theorem non_get_never_cached_witness:
  "\<not> is_get (fst (recv 8192 [example_post]))
   \<and> fs (serve [(example_env, [example_post]), (example_env, [example_post])]
           \<lparr>fs = Map.empty, trace = []\<rparr>) = Map.empty
   \<and> length (trace (serve [(example_env, [example_post]), (example_env, [example_post])]
           \<lparr>fs = Map.empty, trace = []\<rparr>)) = 12"
proof -
  have "\<forall>(e, sock) \<in> set [(example_env, [example_post]), (example_env, [example_post])].
          \<not> is_get (fst (recv 8192 sock))"
    using example_post_not_get by simp
  from non_get_never_cached [OF this, of "\<lparr>fs = Map.empty, trace = []\<rparr>"]
  have "fs (serve [(example_env, [example_post]), (example_env, [example_post])]
           \<lparr>fs = Map.empty, trace = []\<rparr>) = Map.empty"
    by simp
  moreover have "length (trace (serve [(example_env, [example_post]), (example_env, [example_post])]
           \<lparr>fs = Map.empty, trace = []\<rparr>)) = 12"
    by (simp add: example_post_run)
  ultimately show ?thesis using example_post_not_get by blast
qed

subsection \<open>The scenario of the specification\<close>

text \<open>
  C9, amended. For \<^verbatim>\<open>GET http://example.test/a.html HTTP/1.1\<close> against an origin that
  answers \<^verbatim>\<open>HTTP/1.0 200 OK\<close>, an empty line and \<^verbatim>\<open><html>hi</html>\<close>: the first call
  resolves the host, connects, sends one request, hands the response to the client and
  stores it under the name \<^verbatim>\<open>http___example.test_a.html\<close>; the second call, on the cache
  the first one left, sends the client the same bytes and touches neither resolver nor
  origin.
\<close>

theorem scenario_cached_once:
  "handle_client example_env [example_request] \<lparr>fs = Map.empty, trace = []\<rparr> =
     ([], Returns \<lparr>fs = [''http___example.test_a.html'' \<mapsto> File example_response],
        trace = [Resolve ''example.test'', Connect ''192.0.2.1'' 80,
                 ServerSend (''GET /a.html HTTP/1.1'' @ CRLF @ ''Host: example.test'' @ CRLF @ CRLF @ CRLF
                   @ ''Host: example.test'' @ CRLF @ ''Connection: close'' @ CRLF
                   @ ''User-Agent: PythonProxy/1.0'' @ CRLF @ CRLF),
                 ClientSend example_response, ServerClose, ClientClose]\<rparr>)
   \<and> handle_client example_env [example_request]
       \<lparr>fs = [''http___example.test_a.html'' \<mapsto> File example_response], trace = []\<rparr> =
     ([], Returns \<lparr>fs = [''http___example.test_a.html'' \<mapsto> File example_response],
        trace = [ClientSend example_response, ClientClose, ClientClose]\<rparr>)
   \<and> example_response = ''HTTP/1.0 200 OK'' @ CRLF @ CRLF @ ''<html>hi</html>''"
  by (simp add: eval_defs example_env_def example_request_def example_response_def)

text \<open>
  C9 as stated fails on the name of the cache file: \<^verbatim>\<open>sanitize_filename\<close> replaces the
  colon as well, so nothing is stored under \<^verbatim>\<open>http:__example.test_a.html\<close>.
\<close>

theorem scenario_key_counterexample:
  "sanitize_filename ''http://example.test/a.html'' = ''http___example.test_a.html''
   \<and> fs (final (snd (handle_client example_env [example_request] \<lparr>fs = Map.empty, trace = []\<rparr>)))
         ''http:__example.test_a.html'' = None
   \<and> fs (final (snd (handle_client example_env [example_request] \<lparr>fs = Map.empty, trace = []\<rparr>)))
         ''http___example.test_a.html'' = Some (File example_response)"
  by (simp add: eval_defs example_env_def example_request_def)

subsection \<open>The single read\<close>



end
